theory Spec2Isabelle
  imports Main "HOL-Library.Word"
begin

unbundle bit_operations_syntax

section \<open>Status, Result and the pending exception\<close>

text \<open>
  \<open>arrow::Status\<close> is a code with a message; \<open>arrow::Result<T>\<close> is a non-OK status
  (\<open>Inl\<close>) or a value (\<open>Inr\<close>). A null \<open>shared_ptr\<close> is \<open>None\<close>.
\<close>

datatype status =
    OK
  | Invalid string
  | NotImplemented string
  | OutOfMemory string
  | IOError string
  | HostRejected string

fun ok :: "status \<Rightarrow> bool" where
  "ok OK = True"
| "ok _ = False"

fun message :: "status \<Rightarrow> string" where
  "message OK = []"
| "message (Invalid m) = m"
| "message (NotImplemented m) = m"
| "message (OutOfMemory m) = m"
| "message (IOError m) = m"
| "message (HostRejected m) = m"

type_synonym 'a result = "status + 'a"

text \<open>
  How a C++ call ends: it returns, a \<open>JniPendingException\<close> unwinds out of it, the
  process aborts (\<open>ValueOrDie\<close> on a failed result), or it reads memory it does not own.
\<close>

datatype 'a cpp =
    Return 'a
  | Throw string
  | Abort
  | Undefined

text \<open>\<open>JniGetOrThrow\<close>, \<open>JniAssertOkOrThrow\<close> and \<open>JniThrow\<close> (lines 63 to 77).\<close>

definition JniGetOrThrow :: "'a result \<Rightarrow> 'a cpp" where
  "JniGetOrThrow r = (case r of Inl st \<Rightarrow> Throw (message st) | Inr v \<Rightarrow> Return v)"

definition JniAssertOkOrThrow :: "status \<Rightarrow> unit cpp" where
  "JniAssertOkOrThrow st = (if \<not> ok st then Throw (message st) else Return ())"

definition JniThrow :: "string \<Rightarrow> 'a cpp" where
  "JniThrow m = Throw m"

text \<open>
  \<open>JNI_METHOD_START\<close> ... \<open>JNI_METHOD_END(fallback)\<close>: a pending exception becomes a Java
  \<open>RuntimeException\<close> with the same message and the entry point returns the fallback.
\<close>

record 'a jni_return =
  returned :: 'a
  java_exception :: "string option"

definition JNI_METHOD_END :: "'a \<Rightarrow> 'a cpp \<Rightarrow> 'a jni_return cpp" where
  "JNI_METHOD_END fallback c =
     (case c of
        Return v \<Rightarrow> Return \<lparr>returned = v, java_exception = None\<rparr>
      | Throw m \<Rightarrow> Return \<lparr>returned = fallback, java_exception = Some m\<rparr>
      | Abort \<Rightarrow> Abort
      | Undefined \<Rightarrow> Undefined)"

text \<open>Sequencing: the first abnormal end is the end of the whole call.\<close>

definition cpp_bind :: "'a cpp \<Rightarrow> ('a \<Rightarrow> 'b cpp) \<Rightarrow> 'b cpp" where
  "cpp_bind c f =
     (case c of Return v \<Rightarrow> f v | Throw m \<Rightarrow> Throw m | Abort \<Rightarrow> Abort | Undefined \<Rightarrow> Undefined)"

section \<open>File formats\<close>

type_synonym jint = "32 word"
type_synonym jlong = "64 word"

text \<open>\<open>std::to_string\<close> on a signed integer: decimal digits, a minus sign when negative.\<close>

fun digits :: "nat \<Rightarrow> string" where
  "digits n =
     (if n < 10 then [''0123456789'' ! n] else digits (n div 10) @ [''0123456789'' ! (n mod 10)])"

definition to_string :: "int \<Rightarrow> string" where
  "to_string i = (if i < 0 then CHR ''-'' # digits (nat (- i)) else digits (nat i))"

datatype file_format = ParquetFileFormat

definition GetFileFormat :: "jint \<Rightarrow> file_format result" where
  "GetFileFormat file_format_id =
     (if file_format_id = 0 then Inr ParquetFileFormat
      else Inl (Invalid (''illegal file format id: '' @ to_string (sint file_format_id))))"

section \<open>The reservation listener backed by a Java object\<close>

text \<open>
  What the host runtime answers to one callback: whether \<open>GetEnv\<close> finds the calling
  thread attached, and whether the Java method raised (the exception left pending).
\<close>

type_synonym jobject = nat

record java_listener =
  reserve :: "jlong \<Rightarrow> string option"
  unreserve :: "jlong \<Rightarrow> string option"

text \<open>
  Modelled from the spec: \<open>arrow::dataset::jni::CheckException\<close> is declared in
  \<open>jni_util.h\<close>, which is not among the sources. A host-side error raised by the
  listener is an error of the call: the status is OK exactly when no exception is pending.
\<close>

definition CheckException :: "string option \<Rightarrow> status" where
  "CheckException pending = (case pending of None \<Rightarrow> OK | Some e \<Rightarrow> HostRejected e)"

definition OnReservation :: "bool \<Rightarrow> java_listener \<Rightarrow> jlong \<Rightarrow> status" where
  "OnReservation GetEnv_ok java_reservation_listener sz =
     (if \<not> GetEnv_ok then Invalid ''JNIEnv was not attached to current thread''
      else let pending = reserve java_reservation_listener sz in
        if \<not> ok (CheckException pending) then CheckException pending else OK)"

definition OnRelease :: "bool \<Rightarrow> java_listener \<Rightarrow> jlong \<Rightarrow> status" where
  "OnRelease GetEnv_ok java_reservation_listener sz =
     (if \<not> GetEnv_ok then Invalid ''JNIEnv was not attached to current thread''
      else let pending = unreserve java_reservation_listener sz in
        if \<not> ok (CheckException pending) then CheckException pending else OK)"

section \<open>Arrays, record batches and the buffer store\<close>

text \<open>
  An array is a view into a buffer: the buffer's identity, the offset of the first logical
  element and the logical length. Buffers live in a store; a buffer's identity is its
  index there, so two arrays over the same buffer share it.
\<close>

record array =
  buffer :: nat
  offset :: nat
  length_a :: nat

type_synonym 'v store = "'v list list"

definition logical :: "'v store \<Rightarrow> array \<Rightarrow> 'v list" where
  "logical st a = take (length_a a) (drop (offset a) (st ! buffer a))"

record field =
  field_name :: string
  field_type :: string

type_synonym schema = "field list"

record record_batch =
  schema :: schema
  num_rows :: nat
  columns :: "array list"

definition RecordBatch_Make :: "schema \<Rightarrow> nat \<Rightarrow> array list \<Rightarrow> record_batch" where
  "RecordBatch_Make s n arrays = \<lparr>schema = s, num_rows = n, columns = arrays\<rparr>"

text \<open>
  Modelled from the spec: \<open>arrow::Concatenate\<close> (\<open>arrow/array/concatenate.h\<close>) is not
  among the sources. On one array it materialises a new array with offset zero containing
  only the logical (sliced) elements, in a newly allocated buffer; the allocation can fail.
\<close>

definition Concatenate :: "(nat \<Rightarrow> bool) \<Rightarrow> 'v store \<Rightarrow> array \<Rightarrow> (array \<times> 'v store) result" where
  "Concatenate alloc_ok st a =
     (if alloc_ok (length_a a)
      then Inr (\<lparr>buffer = length st, offset = 0, length_a = length_a a\<rparr>, st @ [logical st a])
      else Inl (OutOfMemory ''malloc of concatenated buffer failed''))"

section \<open>The scan session\<close>

text \<open>
  \<open>arrow::Iterator<T>\<close> is not among the sources: an iterator is taken as the sequence of
  what its successive \<open>Next()\<close> calls return, with the number of calls made so far.
\<close>

record 'a iterator =
  answers :: "nat \<Rightarrow> 'a"
  position :: nat

definition iterator_Next :: "'a iterator \<Rightarrow> 'a \<times> 'a iterator" where
  "iterator_Next it = (answers it (position it), it\<lparr>position := Suc (position it)\<rparr>)"

record tagged_record_batch =
  tagged_batch :: "record_batch option"
  tagged_fragment :: "nat option"

record 's DisposableScannerAdaptor =
  m_scanner :: 's
  m_batch_itr :: "tagged_record_batch result iterator"

definition NextBatch ::
  "'s DisposableScannerAdaptor \<Rightarrow> record_batch option result \<times> 's DisposableScannerAdaptor" where
  "NextBatch ad =
     (case iterator_Next (m_batch_itr ad) of
        (Inl st, it) \<Rightarrow> (Inl st, ad\<lparr>m_batch_itr := it\<rparr>)
      | (Inr batch, it) \<Rightarrow> (Inr (tagged_batch batch), ad\<lparr>m_batch_itr := it\<rparr>))"

definition Next_adaptor ::
  "'s DisposableScannerAdaptor \<Rightarrow> record_batch option result \<times> 's DisposableScannerAdaptor" where
  "Next_adaptor ad =
     (case NextBatch ad of
        (Inl st, ad') \<Rightarrow> (Inl st, ad')
      | (Inr batch, ad') \<Rightarrow> (Inr batch, ad'))"

definition Create_adaptor ::
  "('s \<Rightarrow> tagged_record_batch result iterator result) \<Rightarrow> 's \<Rightarrow> 's DisposableScannerAdaptor result" where
  "Create_adaptor ScanBatches scanner =
     (case ScanBatches scanner of
        Inl st \<Rightarrow> Inl st
      | Inr batch_itr \<Rightarrow> Inr \<lparr>m_scanner = scanner, m_batch_itr = batch_itr\<rparr>)"

section \<open>The record batch source backed by a Java iterator\<close>

text \<open>
  What the host runtime answers during one call of the iterator function: whether the
  calling thread is attached, what \<open>hasNext\<close> returns, the byte array \<open>next\<close> returns, and
  what importing the structure at an address against a schema gives
  (\<open>arrow::dataset::jni::ImportRecordBatch\<close> is not among the sources; only its result is
  used). The calls the function makes are recorded in order.
\<close>

record host_reply =
  attached :: bool
  hasNext :: bool
  next_bytes :: "8 word list"
  ImportRecordBatch :: "schema \<Rightarrow> jlong \<Rightarrow> record_batch result"

datatype jni_call =
    Call_GetEnv
  | Call_hasNext
  | Call_next
  | Call_GetByteArrayElements
  | Call_ImportRecordBatch schema jlong
  | Call_ArrowArrayRelease jlong

text \<open>
  \<open>std::memcpy(&memory_address, byte_array, sizeof(int64_t))\<close> on a little-endian machine:
  the first byte is the least significant.
\<close>

fun le_bytes :: "8 word list \<Rightarrow> jlong" where
  "le_bytes [] = 0"
| "le_bytes (b # bs) = ucast b OR push_bit 8 (le_bytes bs)"

definition memcpy_int64 :: "8 word list \<Rightarrow> jlong" where
  "memcpy_int64 byte_array = le_bytes (take 8 byte_array)"

text \<open>
  The function given to \<open>arrow::MakeFunctionIterator\<close> in \<open>MakeJavaDatasetScanner\<close>
  (lines 239 to 260). A byte array shorter than eight bytes makes \<open>memcpy\<close> read past it.
  The source does not look for a pending Java exception after \<open>hasNext\<close> or \<open>next\<close>, so
  the reply carries what the two methods return and nothing else.
\<close>

definition java_iterator_function ::
  "schema \<Rightarrow> host_reply \<Rightarrow> record_batch option result cpp \<times> jni_call list" where
  "java_iterator_function sch r =
     (if \<not> attached r
      then (Return (Inl (Invalid ''JNIEnv was not attached to current thread'')), [Call_GetEnv])
      else if \<not> hasNext r
      then (Return (Inr None), [Call_GetEnv, Call_hasNext])
      else
        let bytes = next_bytes r;
            calls = [Call_GetEnv, Call_hasNext, Call_next, Call_GetByteArrayElements]
        in if length bytes < 8 then (Undefined, calls)
           else
             let memory_address = memcpy_int64 bytes;
                 calls = calls @ [Call_ImportRecordBatch sch memory_address]
             in (case JniGetOrThrow (ImportRecordBatch r sch memory_address) of
                   Return rb \<Rightarrow>
                     (Return (Inr (Some rb)), calls @ [Call_ArrowArrayRelease memory_address])
                 | Throw m \<Rightarrow> (Throw m, calls)
                 | Abort \<Rightarrow> (Abort, calls)
                 | Undefined \<Rightarrow> (Undefined, calls)))"

text \<open>
  \<open>SimpleIteratorFragment\<close>: the iterator over the function above (each \<open>Next()\<close> calls
  it once more) and the flag \<open>used_\<close>, which nothing reads.
\<close>

record SimpleIteratorFragment =
  itr_schema :: schema
  itr_host :: "nat \<Rightarrow> host_reply"
  itr_calls :: nat
  used :: bool

definition SimpleIteratorFragment_Make ::
  "schema \<Rightarrow> (nat \<Rightarrow> host_reply) \<Rightarrow> SimpleIteratorFragment result" where
  "SimpleIteratorFragment_Make s host =
     Inr \<lparr>itr_schema = s, itr_host = host, itr_calls = 0, used = False\<rparr>"

definition itr_Next ::
  "SimpleIteratorFragment \<Rightarrow> record_batch option result cpp \<times> SimpleIteratorFragment" where
  "itr_Next f =
     (fst (java_iterator_function (itr_schema f) (itr_host f (itr_calls f))),
      f\<lparr>itr_calls := Suc (itr_calls f)\<rparr>)"

definition ReadPhysicalSchemaImpl :: "SimpleIteratorFragment \<Rightarrow> schema result" where
  "ReadPhysicalSchemaImpl f = Inl (NotImplemented ''No physical schema is readable'')"

text \<open>
  Modelled from the spec: \<open>arrow::IsIterationEnd\<close> (\<open>arrow/util/iterator.h\<close>) is not among
  the sources. End-of-stream is the successful null batch (the function's
  \<open>return nullptr;  // stream ended\<close>), never a failure.
\<close>

definition IsIterationEnd :: "record_batch option result \<Rightarrow> bool" where
  "IsIterationEnd next = (case next of Inr None \<Rightarrow> True | _ \<Rightarrow> False)"

text \<open>
  Modelled from the spec: \<open>arrow::Result::ValueOrDie\<close> (\<open>arrow/result.h\<close>) is not among the
  sources. A failed result is a typed failure that holds no value: asking it for its value
  ends the process; \<open>JniGetOrThrow\<close> (line 65) tests the status before it asks.
\<close>

definition ValueOrDie :: "'a result \<Rightarrow> 'a cpp" where
  "ValueOrDie r = (case r of Inl st \<Rightarrow> Abort | Inr v \<Rightarrow> Return v)"

record State =
  fragment :: SimpleIteratorFragment
  cur_rb :: "record_batch option"

definition State_Next :: "State \<Rightarrow> record_batch option" where
  "State_Next s = cur_rb s"

definition Finished :: "State \<Rightarrow> bool cpp \<times> State" where
  "Finished s =
     (case itr_Next (fragment s) of
        (Return next, f) \<Rightarrow>
          if IsIterationEnd next then (Return True, s\<lparr>fragment := f, cur_rb := None\<rparr>)
          else (case ValueOrDie next of
                  Return v \<Rightarrow> (Return False, s\<lparr>fragment := f, cur_rb := v\<rparr>)
                | Throw m \<Rightarrow> (Throw m, s\<lparr>fragment := f\<rparr>)
                | Abort \<Rightarrow> (Abort, s\<lparr>fragment := f\<rparr>)
                | Undefined \<Rightarrow> (Undefined, s\<lparr>fragment := f\<rparr>))
      | (Throw m, f) \<Rightarrow> (Throw m, s\<lparr>fragment := f\<rparr>)
      | (Abort, f) \<Rightarrow> (Abort, s\<lparr>fragment := f\<rparr>)
      | (Undefined, f) \<Rightarrow> (Undefined, s\<lparr>fragment := f\<rparr>))"

text \<open>
  \<open>Generator::operator()\<close>: the loop of lines 204 to 211. \<open>Return None\<close> is
  \<open>AsyncGeneratorEnd\<close>, the end of the stream.
\<close>

partial_function (option) Generator :: "State \<Rightarrow> (record_batch option cpp \<times> State) option" where
  "Generator s =
     (case Finished s of
        (Return finished, s') \<Rightarrow>
          if \<not> finished
          then (case State_Next s' of
                  Some next \<Rightarrow> Some (Return (Some next), s')
                | None \<Rightarrow> Generator s')
          else Some (Return None, s')
      | (Throw m, s') \<Rightarrow> Some (Throw m, s')
      | (Abort, s') \<Rightarrow> Some (Abort, s')
      | (Undefined, s') \<Rightarrow> Some (Undefined, s'))"

definition ScanBatchesAsync :: "SimpleIteratorFragment \<Rightarrow> State" where
  "ScanBatchesAsync f = \<lparr>fragment = f, cur_rb = None\<rparr>"

text \<open>The outcome of the pull after \<open>k\<close> earlier pulls of the same generator.\<close>

fun Generator_pull :: "nat \<Rightarrow> State \<Rightarrow> (record_batch option cpp \<times> State) option" where
  "Generator_pull 0 s = Generator s"
| "Generator_pull (Suc k) s =
     (case Generator s of None \<Rightarrow> None | Some (c, s') \<Rightarrow> Generator_pull k s')"

section \<open>Scanner builder\<close>

text \<open>
  Modelled from the spec: \<open>arrow::dataset::ScannerBuilder\<close> (\<open>arrow/dataset/scanner.h\<close>) is
  not among the sources. A scanner is derived from one data source plus scan parameters
  (target columns, batch size, memory pool); every batch satisfies the scanner's projected
  schema; a scanner created with a column subset projects only those columns, and one
  created with none keeps the schema of the source. The builder's setters can refuse their
  argument.
\<close>

record ScanOptions =
  projected_schema :: schema
  batch_size :: jlong
  pool :: jlong

record 'd Scanner =
  source :: 'd
  dataset_schema :: schema
  options :: ScanOptions

definition ScannerBuilder :: "schema \<Rightarrow> 'd \<Rightarrow> 'd Scanner" where
  "ScannerBuilder s d =
     \<lparr>source = d, dataset_schema = s,
      options = \<lparr>projected_schema = s, batch_size = 1048576, pool = 0\<rparr>\<rparr>"

definition Pool :: "'d Scanner \<Rightarrow> jlong \<Rightarrow> status \<times> 'd Scanner" where
  "Pool b p =
     (if p = 0 then (Invalid ''memory pool is null'', b)
      else (OK, b\<lparr>options := (options b)\<lparr>pool := p\<rparr>\<rparr>))"

definition GetFieldByName :: "schema \<Rightarrow> string \<Rightarrow> field option" where
  "GetFieldByName s n = find (\<lambda>f. field_name f = n) s"

definition Project :: "'d Scanner \<Rightarrow> string list \<Rightarrow> status \<times> 'd Scanner" where
  "Project b column_vector =
     (if list_all (\<lambda>n. GetFieldByName (dataset_schema b) n \<noteq> None) column_vector
      then (OK, b\<lparr>options := (options b)
              \<lparr>projected_schema := List.map_filter (GetFieldByName (dataset_schema b)) column_vector\<rparr>\<rparr>)
      else (Invalid ''no such column in the dataset schema'', b))"

definition BatchSize :: "'d Scanner \<Rightarrow> jlong \<Rightarrow> status \<times> 'd Scanner" where
  "BatchSize b n =
     (if sint n \<le> 0 then (Invalid ''BatchSize must be greater than 0'', b)
      else (OK, b\<lparr>options := (options b)\<lparr>batch_size := n\<rparr>\<rparr>))"

definition Finish :: "'d Scanner \<Rightarrow> 'd Scanner result" where
  "Finish b = Inr b"

text \<open>\<open>MakeJavaDatasetScanner\<close> (lines 236 to 270), around the iterator function above.\<close>

definition MakeJavaDatasetScanner ::
  "jlong \<Rightarrow> (nat \<Rightarrow> host_reply) \<Rightarrow> schema \<Rightarrow> SimpleIteratorFragment Scanner result" where
  "MakeJavaDatasetScanner default_memory_pool iter sch =
     (case SimpleIteratorFragment_Make sch iter of
        Inl st \<Rightarrow> Inl st
      | Inr frag \<Rightarrow>
          let scanner_builder = ScannerBuilder sch frag in
          (case Pool scanner_builder default_memory_pool of
             (st, scanner_builder) \<Rightarrow> if \<not> ok st then Inl st else Finish scanner_builder))"

section \<open>Memory pools\<close>

text \<open>
  A pool handle is the address of the pool object. The native heap holds the live
  \<open>ReservationListenableMemoryPool\<close> objects by address; the host runtime holds the live
  global references. Dereferencing an address that holds no live pool has no defined
  behaviour.
\<close>

datatype listener =
    ReserveFromJava jobject
  | OtherListener

record ReservationListenableMemoryPool =
  get_listener :: listener

record native =
  default_memory_pool_id :: jlong
  pools :: "jlong \<rightharpoonup> ReservationListenableMemoryPool"
  global_refs :: "jobject list"

definition getDefaultMemoryPool :: "native \<Rightarrow> jlong jni_return cpp" where
  "getDefaultMemoryPool n = JNI_METHOD_END (- 1) (Return (default_memory_pool_id n))"

text \<open>
  \<open>createListenableMemoryPool\<close>: \<open>memory_pool\<close> is the address \<open>new\<close> returns, chosen by the
  allocator among the addresses that hold no live object.
\<close>

definition createListenableMemoryPool ::
  "native \<Rightarrow> bool \<Rightarrow> jobject \<Rightarrow> jlong \<Rightarrow> jlong jni_return cpp \<times> native" where
  "createListenableMemoryPool n GetJavaVM_ok jlistener memory_pool =
     (let n1 = n\<lparr>global_refs := jlistener # global_refs n\<rparr> in
      if \<not> GetJavaVM_ok
      then (JNI_METHOD_END (- 1) (JniThrow ''Unable to get JavaVM instance''), n1)
      else (JNI_METHOD_END (- 1) (Return memory_pool),
            n1\<lparr>pools := (pools n1)(memory_pool \<mapsto> \<lparr>get_listener = ReserveFromJava jlistener\<rparr>)\<rparr>))"

definition releaseMemoryPool :: "native \<Rightarrow> jlong \<Rightarrow> unit jni_return cpp \<times> native" where
  "releaseMemoryPool n memory_pool_id =
     (if memory_pool_id = default_memory_pool_id n then (JNI_METHOD_END () (Return ()), n)
      else if memory_pool_id = 0 then (JNI_METHOD_END () (Return ()), n)
      else (case pools n memory_pool_id of
              None \<Rightarrow> (Undefined, n)
            | Some p \<Rightarrow>
                (case get_listener p of
                   OtherListener \<Rightarrow>
                     (JNI_METHOD_END () (Return ()), n\<lparr>pools := (pools n)(memory_pool_id := None)\<rparr>)
                 | ReserveFromJava rm \<Rightarrow>
                     (JNI_METHOD_END () (Return ()),
                      n\<lparr>pools := (pools n)(memory_pool_id := None),
                        global_refs := remove1 rm (global_refs n)\<rparr>))))"

section \<open>Entry points called from Java\<close>

text \<open>
  The handle registry (\<open>CreateNativeRef\<close>, \<open>RetrieveNativeInstance\<close>, \<open>ReleaseNativeRef\<close>) and
  the schema serialisation are in \<open>jni_util\<close>, not among the sources: an entry point takes
  and returns the native instance its handle stands for, \<open>None\<close> where the source returns the
  fallback \<open>-1\<close> or \<open>nullptr\<close>, and a schema where the source passes its bytes.
\<close>

record Dataset =
  ds_schema :: schema

text \<open>
  Modelled from the spec: \<open>Dataset::NewScan\<close> is not among the sources. A scanner is derived
  from exactly one dataset; until a projection is asked for, it scans the dataset's schema.
\<close>

definition NewScan :: "Dataset \<Rightarrow> Dataset Scanner result" where
  "NewScan d = Inr (ScannerBuilder (ds_schema d) d)"

definition createScanner ::
  "(Dataset Scanner \<Rightarrow> tagged_record_batch result iterator result) \<Rightarrow> Dataset \<Rightarrow>
   string list option \<Rightarrow> jlong \<Rightarrow> jlong \<Rightarrow>
   Dataset Scanner DisposableScannerAdaptor option jni_return cpp" where
  "createScanner ScanBatches dataset columns' batch_size' memory_pool_id =
     JNI_METHOD_END None
      (cpp_bind (if memory_pool_id = 0
                 then JniThrow ''Memory pool does not exist or has been closed''
                 else Return ()) (\<lambda>_.
       cpp_bind (JniGetOrThrow (NewScan dataset)) (\<lambda>scanner_builder.
       case Pool scanner_builder memory_pool_id of (st, scanner_builder) \<Rightarrow>
       cpp_bind (JniAssertOkOrThrow st) (\<lambda>_.
       cpp_bind (case columns' of
                   None \<Rightarrow> Return scanner_builder
                 | Some column_vector \<Rightarrow>
                     (case Project scanner_builder column_vector of (st, scanner_builder) \<Rightarrow>
                        cpp_bind (JniAssertOkOrThrow st) (\<lambda>_. Return scanner_builder)))
         (\<lambda>scanner_builder.
       case BatchSize scanner_builder batch_size' of (st, scanner_builder) \<Rightarrow>
       cpp_bind (JniAssertOkOrThrow st) (\<lambda>_.
       cpp_bind (JniGetOrThrow (Finish scanner_builder)) (\<lambda>scanner.
       cpp_bind (JniGetOrThrow (Create_adaptor ScanBatches scanner)) (\<lambda>scanner_adaptor.
       Return (Some scanner_adaptor)))))))))"

definition getSchemaFromScanner :: "'d Scanner DisposableScannerAdaptor \<Rightarrow> schema" where
  "getSchemaFromScanner scanner_adaptor = projected_schema (options (m_scanner scanner_adaptor))"

text \<open>
  The loop of \<open>nextRecordBatch\<close> (lines 560 to 577) over the columns still to visit, with
  \<open>offset_zeroed_arrays\<close> so far.
\<close>

fun offset_zeroed_loop ::
  "(nat \<Rightarrow> bool) \<Rightarrow> 'v store \<Rightarrow> array list \<Rightarrow> array list \<Rightarrow> (array list \<times> 'v store) cpp" where
  "offset_zeroed_loop alloc_ok st [] offset_zeroed_arrays = Return (offset_zeroed_arrays, st)"
| "offset_zeroed_loop alloc_ok st (array # rest) offset_zeroed_arrays =
     (if offset array = 0
      then offset_zeroed_loop alloc_ok st rest (offset_zeroed_arrays @ [array])
      else cpp_bind (JniGetOrThrow (Concatenate alloc_ok st array)) (\<lambda>(offset_zeroed, st').
             offset_zeroed_loop alloc_ok st' rest (offset_zeroed_arrays @ [offset_zeroed])))"

text \<open>
  \<open>nextRecordBatch\<close>: the returned flag, the adaptor and the store afterwards, and the batch
  written to the caller's structure (\<open>ExportRecordBatch\<close> is not among the sources: its
  status is a parameter). The loop runs over the batch's columns, \<open>num_columns()\<close> of them.
  When the call fails, the copies made so far are dropped with their owners and the store
  is reported as it was.
\<close>

record ('s, 'v) next_result =
  flag :: "bool jni_return cpp"
  adaptor_after :: "'s DisposableScannerAdaptor"
  store_after :: "'v store"
  exported :: "record_batch option"

definition nextRecordBatch ::
  "(nat \<Rightarrow> bool) \<Rightarrow> (record_batch \<Rightarrow> status) \<Rightarrow> 's DisposableScannerAdaptor \<Rightarrow> 'v store \<Rightarrow>
   ('s, 'v) next_result" where
  "nextRecordBatch alloc_ok ExportRecordBatch scanner_adaptor st =
     (case Next_adaptor scanner_adaptor of (r, ad) \<Rightarrow>
      let failed = (\<lambda>c. \<lparr>flag = JNI_METHOD_END False c, adaptor_after = ad, store_after = st,
                          exported = None\<rparr>) in
      (case JniGetOrThrow r of
         Return None \<Rightarrow> failed (Return False)
       | Return (Some record_batch) \<Rightarrow>
           (case offset_zeroed_loop alloc_ok st (columns record_batch) [] of
              Return (offset_zeroed_arrays, st') \<Rightarrow>
                let offset_zeroed_batch =
                      RecordBatch_Make (schema record_batch) (num_rows record_batch)
                        offset_zeroed_arrays
                in (case JniAssertOkOrThrow (ExportRecordBatch offset_zeroed_batch) of
                      Return _ \<Rightarrow>
                        \<lparr>flag = JNI_METHOD_END False (Return True), adaptor_after = ad,
                         store_after = st', exported = Some offset_zeroed_batch\<rparr>
                    | Throw m \<Rightarrow> failed (Throw m)
                    | Abort \<Rightarrow> failed Abort
                    | Undefined \<Rightarrow> failed Undefined)
            | Throw m \<Rightarrow> failed (Throw m)
            | Abort \<Rightarrow> failed Abort
            | Undefined \<Rightarrow> failed Undefined)
       | Throw m \<Rightarrow> failed (Throw m)
       | Abort \<Rightarrow> failed Abort
       | Undefined \<Rightarrow> failed Undefined))"

text \<open>The flag of the pull after \<open>k\<close> earlier pulls of the same session.\<close>

fun nextRecordBatch_pull ::
  "(nat \<Rightarrow> bool) \<Rightarrow> (record_batch \<Rightarrow> status) \<Rightarrow> nat \<Rightarrow> 's DisposableScannerAdaptor \<Rightarrow> 'v store \<Rightarrow>
   bool jni_return cpp" where
  "nextRecordBatch_pull alloc_ok ex 0 ad st = flag (nextRecordBatch alloc_ok ex ad st)"
| "nextRecordBatch_pull alloc_ok ex (Suc k) ad st =
     (let r = nextRecordBatch alloc_ok ex ad st
      in nextRecordBatch_pull alloc_ok ex k (adaptor_after r) (store_after r))"

text \<open>
  \<open>makeFileSystemDatasetFactory\<close>; \<open>FileSystemDatasetFactory::Make\<close> is not among the
  sources and is a parameter.
\<close>

definition makeFileSystemDatasetFactory ::
  "(string \<Rightarrow> jlong \<Rightarrow> jlong \<Rightarrow> file_format \<Rightarrow> 'f result) \<Rightarrow> string \<Rightarrow> jint \<Rightarrow> jlong \<Rightarrow> jlong \<Rightarrow>
   'f option jni_return cpp" where
  "makeFileSystemDatasetFactory Make uri file_format_id start_offset len =
     JNI_METHOD_END None
      (cpp_bind (JniGetOrThrow (GetFileFormat file_format_id)) (\<lambda>file_format.
       cpp_bind (JniGetOrThrow (Make uri start_offset len file_format)) (\<lambda>d.
       Return (Some d))))"

text \<open>
  \<open>writeFromScannerToFile\<close>. Its \<open>file_format_id\<close> is a \<open>jlong\<close>, and \<open>GetFileFormat\<close> takes
  a \<open>jint\<close>: the call converts, keeping the low 32 bits. What the collaborators that are
  not among the sources answer is the environment.
\<close>

record FileSystemDatasetWriteOptions =
  file_write_options :: file_format
  filesystem :: nat
  base_dir :: string
  basename_template :: string
  partitioning :: "schema \<times> string list"
  max_partitions :: jint

record write_env =
  GetJavaVM_ok :: bool
  default_memory_pool :: jlong
  FromSchemaByteArray :: "8 word list \<Rightarrow> schema result"
  FileSystemFromUri :: "string \<Rightarrow> (nat \<times> string) result"
  Write :: "FileSystemDatasetWriteOptions \<Rightarrow> SimpleIteratorFragment Scanner \<Rightarrow> status"

definition writeFromScannerToFile ::
  "write_env \<Rightarrow> (nat \<Rightarrow> host_reply) \<Rightarrow> 8 word list \<Rightarrow> jlong \<Rightarrow> string \<Rightarrow> string list \<Rightarrow> jint \<Rightarrow>
   string \<Rightarrow> unit jni_return cpp" where
  "writeFromScannerToFile env itr schema_bytes file_format_id uri partition_columns
     max_partitions' base_name_template =
     JNI_METHOD_END ()
      (cpp_bind (if \<not> GetJavaVM_ok env then JniThrow ''Unable to get JavaVM instance''
                 else Return ()) (\<lambda>_.
       cpp_bind (JniGetOrThrow (FromSchemaByteArray env schema_bytes)) (\<lambda>sch.
       cpp_bind (JniGetOrThrow (MakeJavaDatasetScanner (default_memory_pool env) itr sch))
         (\<lambda>scanner.
       cpp_bind (JniGetOrThrow (GetFileFormat (ucast file_format_id))) (\<lambda>file_format.
       cpp_bind (JniGetOrThrow (FileSystemFromUri env uri)) (\<lambda>(fs, output_path).
       let opts = \<lparr>file_write_options = file_format, filesystem = fs, base_dir = output_path,
                   basename_template = base_name_template,
                   partitioning = (sch, partition_columns),
                   max_partitions = max_partitions'\<rparr>
       in JniAssertOkOrThrow (Write env opts scanner)))))))"

section \<open>Auxiliary notions and concrete inputs\<close>


text \<open>
  How an exported column \<open>z\<close> relates to the column \<open>a\<close> it comes from: the same array when
  \<open>a\<close> has offset zero, otherwise an array at offset zero over a buffer the store \<open>st\<close> did
  not have, with the length and the logical elements of \<open>a\<close>.
\<close>

definition zeroed :: "'v store \<Rightarrow> 'v store \<Rightarrow> array \<Rightarrow> array \<Rightarrow> bool" where
  "zeroed st st' a z =
     (if offset a = 0 then z = a
      else offset z = 0 \<and> length_a z = length_a a \<and> logical st' z = logical st a \<and>
           length st \<le> buffer z)"

definition completed :: "unit jni_return cpp" where
  "completed = Return \<lparr>returned = (), java_exception = None\<rparr>"

definition end_of_stream :: "bool jni_return cpp" where
  "end_of_stream = Return \<lparr>returned = False, java_exception = None\<rparr>"

definition batch0 :: record_batch where
  "batch0 = \<lparr>schema = [\<lparr>field_name = ''x'', field_type = ''int32''\<rparr>], num_rows = 2,
             columns = [\<lparr>buffer = 0, offset = 0, length_a = 2\<rparr>]\<rparr>"

definition reply_detached :: host_reply where
  "reply_detached = \<lparr>attached = False, hasNext = True, next_bytes = [16, 0, 0, 0, 0, 0, 0, 0],
                      ImportRecordBatch = (\<lambda>_ _. Inr batch0)\<rparr>"

definition reply_end :: host_reply where
  "reply_end = \<lparr>attached = True, hasNext = False, next_bytes = [],
                 ImportRecordBatch = (\<lambda>_ _. Inl (Invalid ''nothing to import''))\<rparr>"

definition reply_batch :: host_reply where
  "reply_batch = \<lparr>attached = True, hasNext = True, next_bytes = [16, 0, 0, 0, 0, 0, 0, 0],
                   ImportRecordBatch = (\<lambda>_ _. Inr batch0)\<rparr>"

definition reply_bad_import :: host_reply where
  "reply_bad_import =
     \<lparr>attached = True, hasNext = True, next_bytes = [16, 0, 0, 0, 0, 0, 0, 0],
      ImportRecordBatch = (\<lambda>_ _. Inl (Invalid ''schema mismatch''))\<rparr>"


text \<open>A Java iterator whose \<open>hasNext\<close> is false once and true afterwards.\<close>

definition host_resuming :: "nat \<Rightarrow> host_reply" where
  "host_resuming n = (if n = 0 then reply_end else reply_batch)"

text \<open>A pulling thread that is attached for the first pull and not afterwards.\<close>

definition host_detaching :: "nat \<Rightarrow> host_reply" where
  "host_detaching n = (if n = 0 then reply_batch else reply_detached)"

definition fragment_of :: "(nat \<Rightarrow> host_reply) \<Rightarrow> SimpleIteratorFragment" where
  "fragment_of host = \<lparr>itr_schema = [], itr_host = host, itr_calls = 0, used = False\<rparr>"

definition listener_full :: java_listener where
  "listener_full =
     \<lparr>reserve = (\<lambda>sz. if 1024 < sint sz then Some ''OutOfMemoryException'' else None),
      unreserve = (\<lambda>sz. if sint sz < 0 then Some ''IllegalStateException'' else None)\<rparr>"

definition native0 :: native where
  "native0 = \<lparr>default_memory_pool_id = 4096, pools = Map.empty, global_refs = []\<rparr>"

definition native1 :: native where
  "native1 = \<lparr>default_memory_pool_id = 4096,
              pools = [8192 \<mapsto> \<lparr>get_listener = ReserveFromJava 7\<rparr>], global_refs = [7]\<rparr>"

definition dataset0 :: Dataset where
  "dataset0 = \<lparr>ds_schema = [\<lparr>field_name = ''id'', field_type = ''int64''\<rparr>,
                            \<lparr>field_name = ''name'', field_type = ''utf8''\<rparr>]\<rparr>"

definition end_marker :: "tagged_record_batch result" where
  "end_marker = Inr \<lparr>tagged_batch = None, tagged_fragment = None\<rparr>"

definition empty_scan :: "Dataset Scanner \<Rightarrow> tagged_record_batch result iterator result" where
  "empty_scan s = Inr \<lparr>answers = (\<lambda>_. end_marker), position = 0\<rparr>"

definition adaptor_all :: "Dataset Scanner DisposableScannerAdaptor" where
  "adaptor_all =
     \<lparr>m_scanner = \<lparr>source = dataset0, dataset_schema = ds_schema dataset0,
                    options = \<lparr>projected_schema = ds_schema dataset0, batch_size = 1024,
                               pool = 4096\<rparr>\<rparr>,
      m_batch_itr = \<lparr>answers = (\<lambda>_. end_marker), position = 0\<rparr>\<rparr>"

definition adaptor_name :: "Dataset Scanner DisposableScannerAdaptor" where
  "adaptor_name =
     \<lparr>m_scanner = \<lparr>source = dataset0, dataset_schema = ds_schema dataset0,
                    options = \<lparr>projected_schema = [\<lparr>field_name = ''name'', field_type = ''utf8''\<rparr>],
                               batch_size = 1024, pool = 4096\<rparr>\<rparr>,
      m_batch_itr = \<lparr>answers = (\<lambda>_. end_marker), position = 0\<rparr>\<rparr>"

definition adaptor_end :: "unit DisposableScannerAdaptor" where
  "adaptor_end = \<lparr>m_scanner = (), m_batch_itr = \<lparr>answers = (\<lambda>_. end_marker), position = 0\<rparr>\<rparr>"

text \<open>A batch iterator that returns the end marker once and a batch afterwards.\<close>

definition adaptor_resuming :: "unit DisposableScannerAdaptor" where
  "adaptor_resuming =
     \<lparr>m_scanner = (),
      m_batch_itr =
        \<lparr>answers = (\<lambda>n. if n = 0 then end_marker
                          else Inr \<lparr>tagged_batch = Some batch0, tagged_fragment = Some 0\<rparr>),
         position = 0\<rparr>\<rparr>"

definition store0 :: "int store" where
  "store0 = [[10, 20, 30, 40]]"

definition batch1 :: record_batch where
  "batch1 = \<lparr>schema = [\<lparr>field_name = ''x'', field_type = ''int32''\<rparr>,
                       \<lparr>field_name = ''y'', field_type = ''int32''\<rparr>], num_rows = 2,
             columns = [\<lparr>buffer = 0, offset = 0, length_a = 2\<rparr>,
                        \<lparr>buffer = 0, offset = 2, length_a = 2\<rparr>]\<rparr>"

definition adaptor1 :: "unit DisposableScannerAdaptor" where
  "adaptor1 = \<lparr>m_scanner = (),
     m_batch_itr = \<lparr>answers = (\<lambda>_. Inr \<lparr>tagged_batch = Some batch1, tagged_fragment = Some 0\<rparr>),
                    position = 0\<rparr>\<rparr>"

definition write_env0 :: write_env where
  "write_env0 = \<lparr>GetJavaVM_ok = True, default_memory_pool = 4096,
     FromSchemaByteArray = (\<lambda>_. Inr []), FileSystemFromUri = (\<lambda>u. Inr (0, u)),
     Write = (\<lambda>opts _. if file_write_options opts = ParquetFileFormat then OK
                         else IOError ''no writer'')\<rparr>"

section \<open>File format ids\<close>

lemma GetFileFormat_zero: "GetFileFormat 0 = Inr ParquetFileFormat"
  by (simp add: GetFileFormat_def)

lemma GetFileFormat_illegal:
  "file_format_id \<noteq> 0 \<Longrightarrow>
   GetFileFormat file_format_id =
     Inl (Invalid (''illegal file format id: '' @ to_string (sint file_format_id)))"
  by (simp add: GetFileFormat_def)

lemma GetFileFormat_seven: "GetFileFormat 7 = Inl (Invalid ''illegal file format id: 7'')"
  by (simp add: GetFileFormat_def to_string_def)

lemma GetFileFormat_negative: "GetFileFormat (- 12) = Inl (Invalid ''illegal file format id: -12'')"
  by (simp add: GetFileFormat_def to_string_def)

text \<open>
  On \<open>makeFileSystemDatasetFactory\<close>, whose id is a \<open>jint\<close>, an id other than 0 ends the call
  with the exception naming it, whatever the factory constructor would have answered.
\<close>

lemma makeFileSystemDatasetFactory_illegal:
  "file_format_id \<noteq> 0 \<Longrightarrow>
   makeFileSystemDatasetFactory Make uri file_format_id start_offset len =
     Return \<lparr>returned = None,
       java_exception = Some (''illegal file format id: '' @ to_string (sint file_format_id))\<rparr>"
  by (simp add: makeFileSystemDatasetFactory_def cpp_bind_def JniGetOrThrow_def
      GetFileFormat_def JNI_METHOD_END_def)

text \<open>
  C8. Every file format id other than 0 is to fail with an error naming the illegal id.
  \<open>writeFromScannerToFile\<close> receives the id as a \<open>jlong\<close> and hands it to \<open>GetFileFormat\<close>,
  which takes a \<open>jint\<close>: the id \<open>2 ^ 32\<close> is not 0, yet it arrives as 0, the Parquet format is
  chosen and the write completes with no exception.
\<close>

theorem writeFromScannerToFile_wide_id:
  "(4294967296 :: jlong) \<noteq> 0 \<and>
   writeFromScannerToFile write_env0 (\<lambda>_. reply_end) [] 4294967296 ''/tmp/out'' [] 1 ''part''
     = Return \<lparr>returned = (), java_exception = None\<rparr>"
  by (simp add: writeFromScannerToFile_def write_env0_def cpp_bind_def JniGetOrThrow_def
      MakeJavaDatasetScanner_def SimpleIteratorFragment_Make_def ScannerBuilder_def Pool_def
      Finish_def GetFileFormat_def JniAssertOkOrThrow_def JNI_METHOD_END_def)

section \<open>Errors raised by the reservation listener\<close>

text \<open>
  C6. For every size, if the Java listener raises during the \<open>OnReservation\<close> or
  \<open>OnRelease\<close> call, the call's status is not OK and, on an attached thread, it is the
  host's error; the status is OK only when the listener was called and raised nothing.
\<close>

theorem listener_error_propagates:
  "(reserve l sz = Some e \<longrightarrow>
      \<not> ok (OnReservation g l sz) \<and> (g \<longrightarrow> OnReservation g l sz = HostRejected e)) \<and>
   (unreserve l sz = Some e \<longrightarrow>
      \<not> ok (OnRelease g l sz) \<and> (g \<longrightarrow> OnRelease g l sz = HostRejected e)) \<and>
   (ok (OnReservation g l sz) \<longrightarrow> g \<and> reserve l sz = None) \<and>
   (ok (OnRelease g l sz) \<longrightarrow> g \<and> unreserve l sz = None)"
  by (auto simp: OnReservation_def OnRelease_def CheckException_def Let_def split: option.splits)

theorem listener_error_propagates_witness:
  "reserve listener_full 2048 = Some ''OutOfMemoryException'' \<and>
   OnReservation True listener_full 2048 = HostRejected ''OutOfMemoryException'' \<and>
   \<not> ok (OnReservation False listener_full 2048) \<and>
   unreserve listener_full (- 1) = Some ''IllegalStateException'' \<and>
   OnRelease True listener_full (- 1) = HostRejected ''IllegalStateException'' \<and>
   ok (OnReservation True listener_full 8) \<and> reserve listener_full 8 = None \<and>
   ok (OnRelease True listener_full 8) \<and> unreserve listener_full 8 = None"
proof -
  have r: "reserve listener_full 2048 = Some ''OutOfMemoryException''"
    by (simp add: listener_full_def)
  have u: "unreserve listener_full (- 1) = Some ''IllegalStateException''"
    by (simp add: listener_full_def)
  have o1: "ok (OnReservation True listener_full 8)"
    by (simp add: OnReservation_def CheckException_def listener_full_def)
  have o2: "ok (OnRelease True listener_full 8)"
    by (simp add: OnRelease_def CheckException_def listener_full_def)
  have a: "OnReservation True listener_full 2048 = HostRejected ''OutOfMemoryException''"
    using r listener_error_propagates [of listener_full 2048 "''OutOfMemoryException''" True]
    by blast
  have b: "\<not> ok (OnReservation False listener_full 2048)"
    using r listener_error_propagates [of listener_full 2048 "''OutOfMemoryException''" False]
    by blast
  have c: "OnRelease True listener_full (- 1) = HostRejected ''IllegalStateException''"
    using u listener_error_propagates [of listener_full "- 1" "''IllegalStateException''" True]
    by blast
  have d: "reserve listener_full 8 = None" "unreserve listener_full 8 = None"
    using o1 o2 listener_error_propagates [of listener_full 8 "''none''" True]
    by blast+
  from r u o1 o2 a b c d show ?thesis by blast
qed

section \<open>Calls on a thread not attached to the Java VM\<close>

text \<open>
  Each reservation callback, each release callback and each call of the iterator function
  asks \<open>GetEnv\<close> for itself; when the thread is not attached the call returns the status
  \<open>Invalid\<close>, and the iterator function has called nothing else.
\<close>

lemma detached_call_returns_Invalid:
  "(\<not> g \<longrightarrow>
      OnReservation g l sz = Invalid ''JNIEnv was not attached to current thread'' \<and>
      OnRelease g l sz = Invalid ''JNIEnv was not attached to current thread'') \<and>
   (\<not> attached r \<longrightarrow>
      java_iterator_function sch r =
        (Return (Inl (Invalid ''JNIEnv was not attached to current thread'')), [Call_GetEnv]))"
  by (simp add: OnReservation_def OnRelease_def java_iterator_function_def)

section \<open>One pull from the Java iterator\<close>

lemma memcpy_int64_example: "memcpy_int64 [16, 0, 0, 0, 0, 0, 0, 0] = 16"
  by (simp add: memcpy_int64_def)

lemma memcpy_int64_first_eight: "8 \<le> length bs \<Longrightarrow> memcpy_int64 (bs @ cs) = memcpy_int64 bs"
  by (simp add: memcpy_int64_def)












text \<open>
  C2. The structure is to be released also when its import fails, and the failure is to
  be a typed one. When the import fails, \<open>JniGetOrThrow\<close> throws: the pull ends with the
  exception instead of a failed result, and the call of \<open>ArrowArrayRelease\<close> that follows
  the import in the source is never reached.
\<close>

theorem import_failure_skips_release:
  "java_iterator_function [] reply_bad_import =
     (Throw ''schema mismatch'',
      [Call_GetEnv, Call_hasNext, Call_next, Call_GetByteArrayElements,
       Call_ImportRecordBatch [] 16]) \<and>
   Call_ArrowArrayRelease 16 \<notin> set (snd (java_iterator_function [] reply_bad_import))"
  by (simp add: java_iterator_function_def reply_bad_import_def memcpy_int64_def
      JniGetOrThrow_def)

section \<open>Releasing memory pools\<close>

lemma release_default: "releaseMemoryPool n (default_memory_pool_id n) = (completed, n)"
  by (simp add: releaseMemoryPool_def completed_def JNI_METHOD_END_def)

lemma release_null: "releaseMemoryPool n 0 = (completed, n)"
  by (simp add: releaseMemoryPool_def completed_def JNI_METHOD_END_def)

lemma release_keeps_default:
  "pools (snd (releaseMemoryPool n h)) (default_memory_pool_id n)
     = pools n (default_memory_pool_id n)"
  by (simp add: releaseMemoryPool_def split: option.splits listener.splits)

lemma release_keeps_other_pools:
  "a \<noteq> h \<Longrightarrow> pools (snd (releaseMemoryPool n h)) a = pools n a"
  by (simp add: releaseMemoryPool_def split: option.splits listener.splits)

lemma release_listenable:
  "h \<noteq> default_memory_pool_id n \<Longrightarrow> h \<noteq> 0 \<Longrightarrow>
   pools n h = Some \<lparr>get_listener = ReserveFromJava ref\<rparr> \<Longrightarrow>
   releaseMemoryPool n h =
     (completed, n\<lparr>pools := (pools n)(h := None), global_refs := remove1 ref (global_refs n)\<rparr>)"
  by (simp add: releaseMemoryPool_def completed_def JNI_METHOD_END_def)

lemma release_dangling:
  "h \<noteq> default_memory_pool_id n \<Longrightarrow> h \<noteq> 0 \<Longrightarrow> pools n h = None \<Longrightarrow>
   releaseMemoryPool n h = (Undefined, n)"
  by (simp add: releaseMemoryPool_def)

lemma create_listenable:
  "createListenableMemoryPool n True l a =
     (Return \<lparr>returned = a, java_exception = None\<rparr>,
      n\<lparr>global_refs := l # global_refs n,
        pools := (pools n)(a \<mapsto> \<lparr>get_listener = ReserveFromJava l\<rparr>)\<rparr>)"
  by (simp add: createListenableMemoryPool_def JNI_METHOD_END_def Let_def)

lemma create_then_release:
  assumes "a \<noteq> default_memory_pool_id n" "a \<noteq> 0" "pools n a = None"
  shows "fst (releaseMemoryPool (snd (createListenableMemoryPool n True l a)) a) = completed"
    and "global_refs (snd (releaseMemoryPool (snd (createListenableMemoryPool n True l a)) a))
           = global_refs n"
    and "pools (snd (releaseMemoryPool (snd (createListenableMemoryPool n True l a)) a)) = pools n"
proof -
  let ?n1 = "n\<lparr>global_refs := l # global_refs n,
               pools := (pools n)(a \<mapsto> \<lparr>get_listener = ReserveFromJava l\<rparr>)\<rparr>"
  have r: "releaseMemoryPool ?n1 a =
      (completed, ?n1\<lparr>pools := (pools ?n1)(a := None), global_refs := remove1 l (global_refs ?n1)\<rparr>)"
    using assms by (intro release_listenable) simp_all
  have p: "(pools n)(a := None) = pools n"
    using assms(3) by (simp add: fun_upd_idem_iff)
  show "fst (releaseMemoryPool (snd (createListenableMemoryPool n True l a)) a) = completed"
    by (simp add: create_listenable r)
  show "global_refs (snd (releaseMemoryPool (snd (createListenableMemoryPool n True l a)) a))
           = global_refs n"
    by (simp add: create_listenable r)
  show "pools (snd (releaseMemoryPool (snd (createListenableMemoryPool n True l a)) a)) = pools n"
    by (simp add: create_listenable r p)
qed

text \<open>
  C3, as stated: a second release of the same handle is a no-op. A pool is created at
  address 8192 and released; the release completes and destroys the pool. The second
  release of 8192 finds no live pool behind the pointer it dereferences: it does not
  complete as a no-op.
\<close>

theorem double_release_counterexample:
  "fst (releaseMemoryPool (snd (createListenableMemoryPool native0 True 7 8192)) 8192) = completed \<and>
   fst (releaseMemoryPool
         (snd (releaseMemoryPool (snd (createListenableMemoryPool native0 True 7 8192)) 8192)) 8192)
     = Undefined \<and>
   fst (releaseMemoryPool
         (snd (releaseMemoryPool (snd (createListenableMemoryPool native0 True 7 8192)) 8192)) 8192)
     \<noteq> completed"
  by (simp add: createListenableMemoryPool_def releaseMemoryPool_def native0_def completed_def
      JNI_METHOD_END_def Let_def)

text \<open>
  C3, amended: releasing the default pool's handle or the null handle 0 is a no-op, not
  an error, the second time as the first: the call completes without an exception and
  changes nothing.
\<close>

theorem release_absent_pool_is_noop:
  "h = default_memory_pool_id n \<or> h = 0 \<Longrightarrow>
   releaseMemoryPool n h = (completed, n) \<and>
   releaseMemoryPool (snd (releaseMemoryPool n h)) h = (completed, n)"
  by (auto simp: release_default release_null)

theorem release_absent_pool_is_noop_witness:
  "releaseMemoryPool native1 0 = (completed, native1) \<and>
   releaseMemoryPool (snd (releaseMemoryPool native1 0)) 0 = (completed, native1) \<and>
   default_memory_pool_id native1 = 4096 \<and>
   releaseMemoryPool native1 4096 = (completed, native1) \<and>
   releaseMemoryPool (snd (releaseMemoryPool native1 4096)) 4096 = (completed, native1)"
  using release_absent_pool_is_noop [of 0 native1] release_absent_pool_is_noop [of 4096 native1]
  by (simp add: native1_def)

text \<open>
  C9. Releasing the default pool's handle returns at once and changes nothing, and no
  release removes what lives at the default pool's address. Releasing a live listenable
  pool removes that pool and one global reference to its listener. For a pool made by
  \<open>createListenableMemoryPool\<close> at a fresh address, creation takes one global reference to
  the listener and the release gives back exactly that one: the references and the pools
  are again what they were.
\<close>

theorem release_destroys_only_listenable_pools:
  "releaseMemoryPool n (default_memory_pool_id n) = (completed, n) \<and>
   pools (snd (releaseMemoryPool n h)) (default_memory_pool_id n)
     = pools n (default_memory_pool_id n) \<and>
   (h \<noteq> default_memory_pool_id n \<and> h \<noteq> 0 \<and>
    pools n h = Some \<lparr>get_listener = ReserveFromJava ref\<rparr> \<longrightarrow>
      releaseMemoryPool n h =
        (completed,
         n\<lparr>pools := (pools n)(h := None), global_refs := remove1 ref (global_refs n)\<rparr>)) \<and>
   (a \<noteq> default_memory_pool_id n \<and> a \<noteq> 0 \<and> pools n a = None \<longrightarrow>
      global_refs (snd (createListenableMemoryPool n True l a)) = l # global_refs n \<and>
      fst (releaseMemoryPool (snd (createListenableMemoryPool n True l a)) a) = completed \<and>
      global_refs (snd (releaseMemoryPool (snd (createListenableMemoryPool n True l a)) a))
        = global_refs n \<and>
      pools (snd (releaseMemoryPool (snd (createListenableMemoryPool n True l a)) a)) = pools n)"
  using release_default [of n] release_keeps_default [of n h] release_listenable [of h n ref]
    create_then_release [of a n l]
  by (simp add: create_listenable)

theorem release_destroys_only_listenable_pools_witness:
  "releaseMemoryPool native1 4096 = (completed, native1) \<and>
   pools native1 8192 = Some \<lparr>get_listener = ReserveFromJava 7\<rparr> \<and>
   global_refs native1 = [7] \<and>
   global_refs (snd (releaseMemoryPool native1 8192)) = [] \<and>
   pools (snd (releaseMemoryPool native1 8192)) 8192 = None \<and>
   pools native1 12288 = None \<and>
   global_refs (snd (createListenableMemoryPool native1 True 9 12288)) = [9, 7] \<and>
   fst (releaseMemoryPool (snd (createListenableMemoryPool native1 True 9 12288)) 12288)
     = completed \<and>
   global_refs (snd (releaseMemoryPool (snd (createListenableMemoryPool native1 True 9 12288)) 12288))
     = [7]"
  using release_destroys_only_listenable_pools [of native1 8192 7 12288 9]
  by (simp add: native1_def)

section \<open>Projection of a new scanner\<close>

text \<open>
  C10. When \<open>createScanner\<close> is given no column array and succeeds, the scanner's projected
  schema is the dataset's schema: \<open>Project\<close> was not applied. When it is given a column
  list and succeeds, the projected schema is that list's fields.
\<close>

theorem null_columns_no_projection:
  "(createScanner ScanBatches dataset None bs pid =
      Return \<lparr>returned = Some ad, java_exception = None\<rparr> \<longrightarrow>
    getSchemaFromScanner ad = ds_schema dataset) \<and>
   (createScanner ScanBatches dataset (Some cols) bs pid =
      Return \<lparr>returned = Some ad, java_exception = None\<rparr> \<longrightarrow>
    getSchemaFromScanner ad = List.map_filter (GetFieldByName (ds_schema dataset)) cols)"
  by (auto simp: createScanner_def getSchemaFromScanner_def cpp_bind_def JNI_METHOD_END_def
      JniGetOrThrow_def JniAssertOkOrThrow_def JniThrow_def NewScan_def ScannerBuilder_def Pool_def
      Project_def BatchSize_def Finish_def Create_adaptor_def
      split: if_splits cpp.splits sum.splits prod.splits)

lemma createScanner_all:
  "createScanner empty_scan dataset0 None 1024 4096 =
     Return \<lparr>returned = Some adaptor_all, java_exception = None\<rparr>"
  by (simp add: createScanner_def cpp_bind_def JNI_METHOD_END_def JniGetOrThrow_def
      JniAssertOkOrThrow_def NewScan_def ScannerBuilder_def Pool_def BatchSize_def Finish_def
      Create_adaptor_def empty_scan_def adaptor_all_def)

lemma createScanner_name:
  "createScanner empty_scan dataset0 (Some [''name'']) 1024 4096 =
     Return \<lparr>returned = Some adaptor_name, java_exception = None\<rparr>"
  by (simp add: createScanner_def cpp_bind_def JNI_METHOD_END_def JniGetOrThrow_def
      JniAssertOkOrThrow_def NewScan_def ScannerBuilder_def Pool_def BatchSize_def Finish_def
      Project_def GetFieldByName_def List.map_filter_def
      Create_adaptor_def empty_scan_def adaptor_name_def dataset0_def)

theorem null_columns_no_projection_witness:
  "createScanner empty_scan dataset0 None 1024 4096 =
     Return \<lparr>returned = Some adaptor_all, java_exception = None\<rparr> \<and>
   getSchemaFromScanner adaptor_all = ds_schema dataset0 \<and>
   createScanner empty_scan dataset0 (Some [''name'']) 1024 4096 =
     Return \<lparr>returned = Some adaptor_name, java_exception = None\<rparr> \<and>
   getSchemaFromScanner adaptor_name = [\<lparr>field_name = ''name'', field_type = ''utf8''\<rparr>]"
proof -
  have all: "getSchemaFromScanner adaptor_all = ds_schema dataset0"
    using null_columns_no_projection [of empty_scan dataset0 1024 4096 adaptor_all "[''name'']"]
    by (simp add: createScanner_all)
  have "getSchemaFromScanner adaptor_name
          = List.map_filter (GetFieldByName (ds_schema dataset0)) [''name'']"
    using null_columns_no_projection [of empty_scan dataset0 1024 4096 adaptor_name "[''name'']"]
    by (simp add: createScanner_name)
  then have name: "getSchemaFromScanner adaptor_name
          = [\<lparr>field_name = ''name'', field_type = ''utf8''\<rparr>]"
    by (simp add: dataset0_def GetFieldByName_def List.map_filter_def)
  from all name show ?thesis by (simp add: createScanner_all createScanner_name)
qed

section \<open>Offsets of exported columns\<close>

lemma logical_append: "buffer a < length st \<Longrightarrow> logical (st @ ext) a = logical st a"
  by (simp add: logical_def nth_append)

lemma logical_copy:
  "logical (st @ [logical st a] @ ext) \<lparr>buffer = length st, offset = 0, length_a = length_a a\<rparr>
     = logical st a"
  by (simp add: logical_def nth_append)

lemma offset_zeroed_loop_inv:
  "offset_zeroed_loop alloc_ok (st0 @ ext) cs acc = Return (out, st') \<Longrightarrow>
   list_all (\<lambda>a. buffer a < length st0) cs \<Longrightarrow>
   \<exists>new ext'. out = acc @ new \<and> st' = st0 @ ext @ ext' \<and> list_all2 (zeroed st0 st') cs new"
proof (induction cs arbitrary: ext acc)
  case Nil
  then have "out = acc @ [] \<and> st' = st0 @ ext @ [] \<and> list_all2 (zeroed st0 st') [] []"
    by simp
  then show ?case by blast
next
  case (Cons a rest)
  from Cons.prems(2) have live: "buffer a < length st0" and rest: "list_all (\<lambda>a. buffer a < length st0) rest"
    by simp_all
  show ?case
  proof (cases "offset a = 0")
    case True
    with Cons.prems(1) have "offset_zeroed_loop alloc_ok (st0 @ ext) rest (acc @ [a]) = Return (out, st')"
      by simp
    from Cons.IH [OF this rest] obtain new ext' where
      n: "out = (acc @ [a]) @ new" "st' = st0 @ ext @ ext'" "list_all2 (zeroed st0 st') rest new"
      by blast
    have "zeroed st0 st' a a" using True by (simp add: zeroed_def)
    with n have "out = acc @ (a # new) \<and> st' = st0 @ ext @ ext' \<and>
        list_all2 (zeroed st0 st') (a # rest) (a # new)"
      by simp
    then show ?thesis by blast
  next
    case False
    let ?sl = "logical (st0 @ ext) a"
    let ?z = "\<lparr>buffer = length (st0 @ ext), offset = 0, length_a = length_a a\<rparr>"
    from Cons.prems(1) False have ok: "alloc_ok (length_a a)"
      by (auto simp: Concatenate_def JniGetOrThrow_def cpp_bind_def split: if_splits)
    with Cons.prems(1) False
    have "offset_zeroed_loop alloc_ok (st0 @ (ext @ [?sl])) rest (acc @ [?z]) = Return (out, st')"
      by (simp add: Concatenate_def JniGetOrThrow_def cpp_bind_def)
    from Cons.IH [OF this rest] obtain new ext' where
      n: "out = (acc @ [?z]) @ new" "st' = st0 @ (ext @ [?sl]) @ ext'"
         "list_all2 (zeroed st0 st') rest new"
      by blast
    have "logical st' ?z = ?sl"
      using logical_copy [of "st0 @ ext" a ext'] n(2) by simp
    also have "?sl = logical st0 a" using live by (rule logical_append)
    finally have "zeroed st0 st' a ?z" using False by (simp add: zeroed_def)
    with n have "out = acc @ (?z # new) \<and> st' = st0 @ ext @ ([?sl] @ ext') \<and>
        list_all2 (zeroed st0 st') (a # rest) (?z # new)"
      by simp
    then show ?thesis by blast
  qed
qed

lemma offset_zeroed_loop_no_copy:
  "list_all (\<lambda>a. offset a = 0) cs \<Longrightarrow>
   offset_zeroed_loop alloc_ok st cs acc = Return (acc @ cs, st)"
  by (induction cs arbitrary: acc) simp_all

lemma nextRecordBatch_true:
  assumes "Next_adaptor ad = (Inr (Some rb), ad')"
      and "flag (nextRecordBatch alloc_ok ex ad st) = Return \<lparr>returned = True, java_exception = None\<rparr>"
  shows "\<exists>out st'. offset_zeroed_loop alloc_ok st (columns rb) [] = Return (out, st') \<and>
           nextRecordBatch alloc_ok ex ad st =
             \<lparr>flag = Return \<lparr>returned = True, java_exception = None\<rparr>, adaptor_after = ad',
              store_after = st',
              exported = Some \<lparr>schema = schema rb, num_rows = num_rows rb, columns = out\<rparr>\<rparr>"
  using assms
  by (auto simp: nextRecordBatch_def JniGetOrThrow_def JNI_METHOD_END_def Let_def
      RecordBatch_Make_def JniAssertOkOrThrow_def split: cpp.splits prod.splits if_splits)


text \<open>
  C1. When \<open>nextRecordBatch\<close> returns true for a batch whose columns lie in the store, the
  exported batch has the schema, the row count and the number of columns of the batch the
  scan produced. Each column with offset zero is exported as the same array; each column
  with another offset is exported as an array with offset zero and the same length, over a
  buffer that did not exist before, whose logical elements are those of the original. The
  buffers that existed are unchanged, and when every column has offset zero no buffer is
  added at all.
\<close>

theorem offset_zeroed_before_export:
  assumes "Next_adaptor ad = (Inr (Some rb), ad')"
      and "list_all (\<lambda>a. buffer a < length st) (columns rb)"
      and "flag (nextRecordBatch alloc_ok ex ad st) = Return \<lparr>returned = True, java_exception = None\<rparr>"
  shows "\<exists>b ext.
           exported (nextRecordBatch alloc_ok ex ad st) = Some b \<and>
           store_after (nextRecordBatch alloc_ok ex ad st) = st @ ext \<and>
           schema b = schema rb \<and> num_rows b = num_rows rb \<and>
           length (columns b) = length (columns rb) \<and>
           (\<forall>i < length (columns rb).
              (offset (columns rb ! i) = 0 \<longrightarrow> columns b ! i = columns rb ! i) \<and>
              (offset (columns rb ! i) \<noteq> 0 \<longrightarrow>
                 offset (columns b ! i) = 0 \<and>
                 length_a (columns b ! i) = length_a (columns rb ! i) \<and>
                 logical (st @ ext) (columns b ! i) = logical st (columns rb ! i) \<and>
                 length st \<le> buffer (columns b ! i))) \<and>
           (list_all (\<lambda>a. offset a = 0) (columns rb) \<longrightarrow> ext = [] \<and> columns b = columns rb)"
proof -
  from nextRecordBatch_true [OF assms(1) assms(3)] obtain out st' where
    loop: "offset_zeroed_loop alloc_ok st (columns rb) [] = Return (out, st')" and
    res: "nextRecordBatch alloc_ok ex ad st =
             \<lparr>flag = Return \<lparr>returned = True, java_exception = None\<rparr>, adaptor_after = ad',
              store_after = st',
              exported = Some \<lparr>schema = schema rb, num_rows = num_rows rb, columns = out\<rparr>\<rparr>"
    by blast
  from loop have "offset_zeroed_loop alloc_ok (st @ []) (columns rb) [] = Return (out, st')"
    by simp
  from offset_zeroed_loop_inv [OF this assms(2)] obtain ext where
    st': "st' = st @ ext" and z: "list_all2 (zeroed st (st @ ext)) (columns rb) out"
    by auto
  from z have len: "length out = length (columns rb)"
    by (simp add: list_all2_lengthD)
  have each: "zeroed st (st @ ext) (columns rb ! i) (out ! i)" if "i < length (columns rb)" for i
    using z that by (simp add: list_all2_conv_all_nth)
  have nocopy: "ext = [] \<and> out = columns rb" if "list_all (\<lambda>a. offset a = 0) (columns rb)"
    using offset_zeroed_loop_no_copy [OF that, of alloc_ok st "[]"] loop st' by simp
  let ?b = "\<lparr>schema = schema rb, num_rows = num_rows rb, columns = out\<rparr>"
  have "exported (nextRecordBatch alloc_ok ex ad st) = Some ?b \<and>
        store_after (nextRecordBatch alloc_ok ex ad st) = st @ ext \<and>
        schema ?b = schema rb \<and> num_rows ?b = num_rows rb \<and>
        length (columns ?b) = length (columns rb) \<and>
        (\<forall>i < length (columns rb).
           (offset (columns rb ! i) = 0 \<longrightarrow> columns ?b ! i = columns rb ! i) \<and>
           (offset (columns rb ! i) \<noteq> 0 \<longrightarrow>
              offset (columns ?b ! i) = 0 \<and>
              length_a (columns ?b ! i) = length_a (columns rb ! i) \<and>
              logical (st @ ext) (columns ?b ! i) = logical st (columns rb ! i) \<and>
              length st \<le> buffer (columns ?b ! i))) \<and>
        (list_all (\<lambda>a. offset a = 0) (columns rb) \<longrightarrow> ext = [] \<and> columns ?b = columns rb)"
    using res st' len each nocopy by (auto simp: zeroed_def)
  then show ?thesis by blast
qed

lemma nextRecordBatch_adaptor1:
  "nextRecordBatch (\<lambda>_. True) (\<lambda>_. OK) adaptor1 store0 =
     \<lparr>flag = Return \<lparr>returned = True, java_exception = None\<rparr>,
      adaptor_after = adaptor1\<lparr>m_batch_itr := (m_batch_itr adaptor1)\<lparr>position := 1\<rparr>\<rparr>,
      store_after = [[10, 20, 30, 40], [30, 40]],
      exported = Some \<lparr>schema = schema batch1, num_rows = 2,
                        columns = [\<lparr>buffer = 0, offset = 0, length_a = 2\<rparr>,
                                   \<lparr>buffer = 1, offset = 0, length_a = 2\<rparr>]\<rparr>\<rparr>"
  by (simp add: nextRecordBatch_def Next_adaptor_def NextBatch_def iterator_Next_def adaptor1_def
      batch1_def store0_def JniGetOrThrow_def JNI_METHOD_END_def JniAssertOkOrThrow_def
      RecordBatch_Make_def Concatenate_def cpp_bind_def logical_def)

theorem offset_zeroed_before_export_witness:
  "Next_adaptor adaptor1 =
     (Inr (Some batch1), adaptor1\<lparr>m_batch_itr := (m_batch_itr adaptor1)\<lparr>position := 1\<rparr>\<rparr>) \<and>
   list_all (\<lambda>a. buffer a < length store0) (columns batch1) \<and>
   flag (nextRecordBatch (\<lambda>_. True) (\<lambda>_. OK) adaptor1 store0)
     = Return \<lparr>returned = True, java_exception = None\<rparr> \<and>
   (\<exists>b ext.
      exported (nextRecordBatch (\<lambda>_. True) (\<lambda>_. OK) adaptor1 store0) = Some b \<and>
      store_after (nextRecordBatch (\<lambda>_. True) (\<lambda>_. OK) adaptor1 store0) = store0 @ ext \<and>
      columns b ! 0 = columns batch1 ! 0 \<and>
      offset (columns b ! 1) = 0 \<and> length_a (columns b ! 1) = 2 \<and>
      logical (store0 @ ext) (columns b ! 1) = [30, 40] \<and>
      logical store0 (columns batch1 ! 1) = [30, 40])"
proof -
  have n: "Next_adaptor adaptor1 =
     (Inr (Some batch1), adaptor1\<lparr>m_batch_itr := (m_batch_itr adaptor1)\<lparr>position := 1\<rparr>\<rparr>)"
    by (simp add: Next_adaptor_def NextBatch_def iterator_Next_def adaptor1_def)
  have l: "list_all (\<lambda>a. buffer a < length store0) (columns batch1)"
    by (simp add: batch1_def store0_def)
  have f: "flag (nextRecordBatch (\<lambda>_. True) (\<lambda>_. OK) adaptor1 store0)
     = Return \<lparr>returned = True, java_exception = None\<rparr>"
    by (simp add: nextRecordBatch_adaptor1)
  have v: "logical store0 (columns batch1 ! 1) = [30, 40]"
    by (simp add: logical_def batch1_def store0_def)
  from offset_zeroed_before_export [OF n l f] obtain b ext where
    b: "exported (nextRecordBatch (\<lambda>_. True) (\<lambda>_. OK) adaptor1 store0) = Some b"
       "store_after (nextRecordBatch (\<lambda>_. True) (\<lambda>_. OK) adaptor1 store0) = store0 @ ext"
       "\<forall>i < length (columns batch1).
              (offset (columns batch1 ! i) = 0 \<longrightarrow> columns b ! i = columns batch1 ! i) \<and>
              (offset (columns batch1 ! i) \<noteq> 0 \<longrightarrow>
                 offset (columns b ! i) = 0 \<and>
                 length_a (columns b ! i) = length_a (columns batch1 ! i) \<and>
                 logical (store0 @ ext) (columns b ! i) = logical store0 (columns batch1 ! i) \<and>
                 length store0 \<le> buffer (columns b ! i))"
    by blast
  have c0: "columns b ! 0 = columns batch1 ! 0"
    using b(3) [rule_format, of 0] by (simp add: batch1_def)
  have c1: "offset (columns b ! 1) = 0 \<and> length_a (columns b ! 1) = 2 \<and>
      logical (store0 @ ext) (columns b ! 1) = logical store0 (columns batch1 ! 1)"
    using b(3) [rule_format, of 1] by (simp add: batch1_def)
  from c0 c1 n l f v b(1,2) show ?thesis by auto
qed



section \<open>Pulls after the end of the stream\<close>

text \<open>A pull of the generator always ends: the loop goes round at most once.\<close>

lemma Finished_not_finished:
  "Finished s = (Return False, s') \<Longrightarrow> cur_rb s' \<noteq> None"
  by (auto simp: Finished_def itr_Next_def IsIterationEnd_def ValueOrDie_def
      split: prod.splits cpp.splits sum.splits option.splits if_splits)

lemma Generator_returns: "\<exists>y. Generator s = Some y"
proof (cases "Finished s")
  case (Pair c s')
  show ?thesis
  proof (cases c)
    case (Return finished)
    show ?thesis
    proof (cases finished)
      case True
      with Pair Return show ?thesis by (subst Generator.simps) simp
    next
      case False
      with Pair Return have "cur_rb s' \<noteq> None" by (auto dest: Finished_not_finished)
      with Pair Return False show ?thesis
        by (subst Generator.simps) (auto simp: State_Next_def)
    qed
  qed (use Pair in \<open>subst Generator.simps, simp\<close>)+
qed

lemma Finished_end:
  assumes "attached (itr_host (fragment s) (itr_calls (fragment s)))"
      and "\<not> hasNext (itr_host (fragment s) (itr_calls (fragment s)))"
  shows "Finished s =
     (Return True, s\<lparr>fragment := (fragment s)\<lparr>itr_calls := Suc (itr_calls (fragment s))\<rparr>,
                     cur_rb := None\<rparr>)"
  using assms
  by (simp add: Finished_def itr_Next_def java_iterator_function_def IsIterationEnd_def)

lemma Generator_end:
  assumes "attached (itr_host (fragment s) (itr_calls (fragment s)))"
      and "\<not> hasNext (itr_host (fragment s) (itr_calls (fragment s)))"
  shows "Generator s =
     Some (Return None, s\<lparr>fragment := (fragment s)\<lparr>itr_calls := Suc (itr_calls (fragment s))\<rparr>,
                           cur_rb := None\<rparr>)"
  by (subst Generator.simps) (simp add: Finished_end [OF assms])

lemma Generator_batch:
  assumes "attached r" "hasNext r" "8 \<le> length (next_bytes r)"
      and "ImportRecordBatch r (itr_schema (fragment s)) (memcpy_int64 (next_bytes r)) = Inr rb"
      and "r = itr_host (fragment s) (itr_calls (fragment s))"
  shows "Generator s =
     Some (Return (Some rb), s\<lparr>fragment := (fragment s)\<lparr>itr_calls := Suc (itr_calls (fragment s))\<rparr>,
                           cur_rb := Some rb\<rparr>)"
  using assms
  by (subst Generator.simps)
     (simp add: Finished_def itr_Next_def java_iterator_function_def IsIterationEnd_def
        ValueOrDie_def JniGetOrThrow_def State_Next_def Let_def)

text \<open>
  A pull on a thread that is not attached: the iterator function's \<open>Invalid\<close> is not the end
  marker, and \<open>Finished\<close> asks the failed result for its value.
\<close>

lemma Generator_detached:
  assumes "\<not> attached (itr_host (fragment s) (itr_calls (fragment s)))"
  shows "map_option fst (Generator s) = Some Abort"
  using assms
  by (subst Generator.simps)
     (simp add: Finished_def itr_Next_def java_iterator_function_def IsIterationEnd_def
        ValueOrDie_def)

lemma Generator_pull_end:
  "\<forall>n \<ge> itr_calls (fragment s).
     attached (itr_host (fragment s) n) \<and> \<not> hasNext (itr_host (fragment s) n) \<Longrightarrow>
   map_option fst (Generator_pull k s) = Some (Return None)"
proof (induction k arbitrary: s)
  case 0
  then show ?case by (simp add: Generator_end)
next
  case (Suc k)
  let ?s' = "s\<lparr>fragment := (fragment s)\<lparr>itr_calls := Suc (itr_calls (fragment s))\<rparr>, cur_rb := None\<rparr>"
  from Suc.prems have g: "Generator s = Some (Return None, ?s')"
    by (simp add: Generator_end)
  from Suc.prems have "\<forall>n \<ge> itr_calls (fragment ?s').
     attached (itr_host (fragment ?s') n) \<and> \<not> hasNext (itr_host (fragment ?s') n)"
    by simp
  then have "map_option fst (Generator_pull k ?s') = Some (Return None)" by (rule Suc.IH)
  with g show ?case by simp
qed

lemma nextRecordBatch_end:
  assumes "answers (m_batch_itr ad) (position (m_batch_itr ad)) = Inr tb" "tagged_batch tb = None"
  shows "nextRecordBatch alloc_ok ex ad st =
     \<lparr>flag = end_of_stream,
      adaptor_after = ad\<lparr>m_batch_itr := (m_batch_itr ad)\<lparr>position := Suc (position (m_batch_itr ad))\<rparr>\<rparr>,
      store_after = st, exported = None\<rparr>"
  using assms
  by (simp add: nextRecordBatch_def Next_adaptor_def NextBatch_def iterator_Next_def
      JniGetOrThrow_def JNI_METHOD_END_def end_of_stream_def)

lemma nextRecordBatch_pull_end:
  "\<forall>n \<ge> position (m_batch_itr ad).
     \<exists>tb. answers (m_batch_itr ad) n = Inr tb \<and> tagged_batch tb = None \<Longrightarrow>
   nextRecordBatch_pull alloc_ok ex k ad st = end_of_stream"
proof (induction k arbitrary: ad st)
  case 0
  then obtain tb where "answers (m_batch_itr ad) (position (m_batch_itr ad)) = Inr tb"
    "tagged_batch tb = None"
    by blast
  then show ?case by (simp add: nextRecordBatch_end)
next
  case (Suc k)
  let ?ad' = "ad\<lparr>m_batch_itr := (m_batch_itr ad)\<lparr>position := Suc (position (m_batch_itr ad))\<rparr>\<rparr>"
  from Suc.prems obtain tb where tb: "answers (m_batch_itr ad) (position (m_batch_itr ad)) = Inr tb"
    "tagged_batch tb = None"
    by blast
  from Suc.prems have "\<forall>n \<ge> position (m_batch_itr ?ad').
     \<exists>tb. answers (m_batch_itr ?ad') n = Inr tb \<and> tagged_batch tb = None"
    by simp
  then have "nextRecordBatch_pull alloc_ok ex k ?ad' st = end_of_stream" by (rule Suc.IH)
  then show ?case by (simp add: nextRecordBatch_end [OF tb] Let_def)
qed

text \<open>
  Every pull asks the source again. A pull of the generator is one more call of the
  iterator function, on the host's next reply, and it reports the end of the stream
  exactly when that reply is \<open>hasNext\<close> false on an attached thread. A pull of the scan
  session is one more \<open>Next()\<close> of the batch iterator, and it reports the end of the
  stream exactly when that answer is the end marker.
\<close>

lemma Finished_fragment:
  "fragment (snd (Finished s)) = (fragment s)\<lparr>itr_calls := Suc (itr_calls (fragment s))\<rparr>"
  by (auto simp: Finished_def itr_Next_def split: prod.splits cpp.splits)

lemma Generator_one_round: "\<exists>c. Generator s = Some (c, snd (Finished s))"
proof (cases "Finished s")
  case (Pair c s')
  show ?thesis
  proof (cases c)
    case (Return finished)
    show ?thesis
    proof (cases finished)
      case True
      with Pair Return show ?thesis by (subst Generator.simps) simp
    next
      case False
      with Pair Return have "cur_rb s' \<noteq> None" by (auto dest: Finished_not_finished)
      with Pair Return False show ?thesis
        by (subst Generator.simps) (auto simp: State_Next_def)
    qed
  qed (use Pair in \<open>subst Generator.simps, simp\<close>)+
qed

lemma Generator_asks:
  "\<exists>c s'. Generator s = Some (c, s') \<and>
     fragment s' = (fragment s)\<lparr>itr_calls := Suc (itr_calls (fragment s))\<rparr>"
  using Generator_one_round [of s] Finished_fragment [of s] by blast

lemma Finished_True_iff:
  "fst (Finished s) = Return True \<longleftrightarrow>
     attached (itr_host (fragment s) (itr_calls (fragment s))) \<and>
     \<not> hasNext (itr_host (fragment s) (itr_calls (fragment s)))"
  by (auto simp: Finished_def itr_Next_def java_iterator_function_def IsIterationEnd_def
      ValueOrDie_def JniGetOrThrow_def Let_def split: sum.splits)

lemma Generator_end_iff:
  "map_option fst (Generator s) = Some (Return None) \<longleftrightarrow>
     attached (itr_host (fragment s) (itr_calls (fragment s))) \<and>
     \<not> hasNext (itr_host (fragment s) (itr_calls (fragment s)))"
proof
  assume "attached (itr_host (fragment s) (itr_calls (fragment s))) \<and>
     \<not> hasNext (itr_host (fragment s) (itr_calls (fragment s)))"
  then show "map_option fst (Generator s) = Some (Return None)"
    by (simp add: Generator_end)
next
  assume g: "map_option fst (Generator s) = Some (Return None)"
  obtain c s' where f: "Finished s = (c, s')" by (cases "Finished s")
  have "c = Return True"
  proof (cases c)
    case (Return finished)
    show ?thesis
    proof (cases finished)
      case True
      with Return show ?thesis by simp
    next
      case False
      with f Return have "cur_rb s' \<noteq> None" by (auto dest: Finished_not_finished)
      with f Return False g show ?thesis
        by (subst (asm) Generator.simps) (auto simp: State_Next_def)
    qed
  qed (use f g in \<open>subst (asm) Generator.simps, simp\<close>)+
  with f have "fst (Finished s) = Return True" by simp
  then show "attached (itr_host (fragment s) (itr_calls (fragment s))) \<and>
     \<not> hasNext (itr_host (fragment s) (itr_calls (fragment s)))"
    by (simp add: Finished_True_iff)
qed

lemma nextRecordBatch_asks:
  "m_batch_itr (adaptor_after (nextRecordBatch alloc_ok ex ad st)) =
     (m_batch_itr ad)\<lparr>position := Suc (position (m_batch_itr ad))\<rparr>"
  by (auto simp: nextRecordBatch_def Next_adaptor_def NextBatch_def iterator_Next_def Let_def
      split: prod.splits sum.splits cpp.splits option.splits)

lemma nextRecordBatch_end_iff:
  "flag (nextRecordBatch alloc_ok ex ad st) = end_of_stream \<longleftrightarrow>
     (\<exists>tb. answers (m_batch_itr ad) (position (m_batch_itr ad)) = Inr tb \<and>
           tagged_batch tb = None)"
  by (auto simp: nextRecordBatch_def Next_adaptor_def NextBatch_def iterator_Next_def Let_def
      JniGetOrThrow_def JniAssertOkOrThrow_def JNI_METHOD_END_def end_of_stream_def
      split: prod.splits sum.splits cpp.splits option.splits if_splits)

text \<open>
  C4, as stated: once a pull reports the end of the stream, every later pull does. With a
  Java iterator whose \<open>hasNext\<close> is false once and true afterwards, the generator's first
  pull is the end of the stream and its second pull produces a batch. With a batch
  iterator that returns the end marker once and a batch afterwards, the scan session's
  first \<open>nextRecordBatch\<close> returns false and its second returns true.
\<close>

theorem exhaustion_is_not_latched_counterexample:
  "map_option fst (Generator_pull 0 (ScanBatchesAsync (fragment_of host_resuming)))
     = Some (Return None) \<and>
   map_option fst (Generator_pull (Suc 0) (ScanBatchesAsync (fragment_of host_resuming)))
     = Some (Return (Some batch0)) \<and>
   nextRecordBatch_pull (\<lambda>_. True) (\<lambda>_. OK) 0 adaptor_resuming store0 = end_of_stream \<and>
   nextRecordBatch_pull (\<lambda>_. True) (\<lambda>_. OK) (Suc 0) adaptor_resuming store0
     = Return \<lparr>returned = True, java_exception = None\<rparr>"
proof -
  let ?s0 = "ScanBatchesAsync (fragment_of host_resuming)"
  let ?s1 = "?s0\<lparr>fragment := (fragment ?s0)\<lparr>itr_calls := Suc (itr_calls (fragment ?s0))\<rparr>,
                 cur_rb := None\<rparr>"
  have g0: "Generator ?s0 = Some (Return None, ?s1)"
    by (rule Generator_end)
       (simp_all add: ScanBatchesAsync_def fragment_of_def host_resuming_def reply_end_def)
  have g1: "map_option fst (Generator ?s1) = Some (Return (Some batch0))"
    by (subst Generator_batch [where r = reply_batch and rb = batch0])
       (simp_all add: ScanBatchesAsync_def fragment_of_def host_resuming_def reply_batch_def)
  let ?a1 = "adaptor_resuming\<lparr>m_batch_itr := (m_batch_itr adaptor_resuming)\<lparr>position := Suc 0\<rparr>\<rparr>"
  have n0: "nextRecordBatch (\<lambda>_. True) (\<lambda>_. OK) adaptor_resuming store0 =
      \<lparr>flag = end_of_stream, adaptor_after = ?a1, store_after = store0, exported = None\<rparr>"
    by (subst nextRecordBatch_end [where tb = "\<lparr>tagged_batch = None, tagged_fragment = None\<rparr>"])
       (simp_all add: adaptor_resuming_def end_marker_def)
  have n1: "flag (nextRecordBatch (\<lambda>_. True) (\<lambda>_. OK) ?a1 store0)
      = Return \<lparr>returned = True, java_exception = None\<rparr>"
    by (simp add: nextRecordBatch_def Next_adaptor_def NextBatch_def iterator_Next_def
        adaptor_resuming_def batch0_def JniGetOrThrow_def JNI_METHOD_END_def
        JniAssertOkOrThrow_def RecordBatch_Make_def)
  show ?thesis using g0 g1 n0 n1 by simp
qed

text \<open>
  C4, amended: neither the generator nor the scan session remembers that the stream has
  ended. Every pull asks the underlying source again, once, and reports the end of the
  stream exactly when the source's answer to that pull is exhaustion (the Java iterator's
  \<open>hasNext\<close> false, on an attached thread; the batch iterator's end marker). So from any
  point on from which the source keeps reporting exhaustion, every pull returns and
  reports the end of the stream.
\<close>

theorem exhausted_source_stays_at_end:
  "(map_option fst (Generator s) = Some (Return None) \<longleftrightarrow>
      attached (itr_host (fragment s) (itr_calls (fragment s))) \<and>
      \<not> hasNext (itr_host (fragment s) (itr_calls (fragment s)))) \<and>
   (\<exists>c s'. Generator s = Some (c, s') \<and>
      fragment s' = (fragment s)\<lparr>itr_calls := Suc (itr_calls (fragment s))\<rparr>) \<and>
   (flag (nextRecordBatch alloc_ok ex ad st) = end_of_stream \<longleftrightarrow>
      (\<exists>tb. answers (m_batch_itr ad) (position (m_batch_itr ad)) = Inr tb \<and>
            tagged_batch tb = None)) \<and>
   m_batch_itr (adaptor_after (nextRecordBatch alloc_ok ex ad st)) =
     (m_batch_itr ad)\<lparr>position := Suc (position (m_batch_itr ad))\<rparr> \<and>
   ((\<forall>n \<ge> itr_calls (fragment s).
       attached (itr_host (fragment s) n) \<and> \<not> hasNext (itr_host (fragment s) n)) \<longrightarrow>
    map_option fst (Generator_pull k s) = Some (Return None)) \<and>
   ((\<forall>n \<ge> position (m_batch_itr ad).
       \<exists>tb. answers (m_batch_itr ad) n = Inr tb \<and> tagged_batch tb = None) \<longrightarrow>
    nextRecordBatch_pull alloc_ok ex k ad st = end_of_stream)"
  using Generator_end_iff [of s] Generator_asks [of s]
    nextRecordBatch_end_iff [of alloc_ok ex ad st] nextRecordBatch_asks [of alloc_ok ex ad st]
    Generator_pull_end [of s k] nextRecordBatch_pull_end [of ad alloc_ok ex k st]
  by blast

theorem exhausted_source_stays_at_end_witness:
  "(\<forall>n. attached (itr_host (fragment (ScanBatchesAsync (fragment_of (\<lambda>_. reply_end)))) n) \<and>
        \<not> hasNext (itr_host (fragment (ScanBatchesAsync (fragment_of (\<lambda>_. reply_end)))) n)) \<and>
   map_option fst (Generator_pull 3 (ScanBatchesAsync (fragment_of (\<lambda>_. reply_end))))
     = Some (Return None) \<and>
   (\<forall>n. answers (m_batch_itr adaptor_end) n = end_marker) \<and>
   nextRecordBatch_pull (\<lambda>_. True) (\<lambda>_. OK) 3 adaptor_end store0 = end_of_stream"
proof -
  let ?s = "ScanBatchesAsync (fragment_of (\<lambda>_. reply_end))"
  have h: "\<forall>n. attached (itr_host (fragment ?s) n) \<and> \<not> hasNext (itr_host (fragment ?s) n)"
    by (simp add: ScanBatchesAsync_def fragment_of_def reply_end_def)
  have a: "\<forall>n. answers (m_batch_itr adaptor_end) n = end_marker"
    by (simp add: adaptor_end_def)
  then have a': "\<forall>n \<ge> position (m_batch_itr adaptor_end).
       \<exists>tb. answers (m_batch_itr adaptor_end) n = Inr tb \<and> tagged_batch tb = None"
    by (simp add: end_marker_def)
  note t = exhausted_source_stays_at_end [of ?s "\<lambda>_. True" "\<lambda>_. OK" adaptor_end store0 3]
  from t h have g: "map_option fst (Generator_pull 3 ?s) = Some (Return None)" by blast
  from t a' have n: "nextRecordBatch_pull (\<lambda>_. True) (\<lambda>_. OK) 3 adaptor_end store0 = end_of_stream"
    by blast
  from h g a n show ?thesis by blast
qed

section \<open>A pull on a thread not attached to the Java VM\<close>

text \<open>
  C7. A pull on a thread that is not attached is to be a recoverable error of that pull,
  not the end of the process. The iterator function does return the status \<open>Invalid\<close>;
  but \<open>State::Finished\<close> only asks whether the result is the end marker and then takes
  its value with \<open>ValueOrDie\<close>, and the process aborts: on the first pull of a generator
  whose thread is not attached, and on the second pull of one whose thread was attached
  for the first pull only.
\<close>

theorem detached_pull_aborts:
  "java_iterator_function [] reply_detached =
     (Return (Inl (Invalid ''JNIEnv was not attached to current thread'')), [Call_GetEnv]) \<and>
   map_option fst (Generator_pull 0 (ScanBatchesAsync (fragment_of (\<lambda>_. reply_detached))))
     = Some Abort \<and>
   map_option fst (Generator_pull 0 (ScanBatchesAsync (fragment_of host_detaching)))
     = Some (Return (Some batch0)) \<and>
   map_option fst (Generator_pull (Suc 0) (ScanBatchesAsync (fragment_of host_detaching)))
     = Some Abort"
proof -
  have i: "java_iterator_function [] reply_detached =
     (Return (Inl (Invalid ''JNIEnv was not attached to current thread'')), [Call_GetEnv])"
    by (simp add: java_iterator_function_def reply_detached_def)
  have d: "map_option fst (Generator (ScanBatchesAsync (fragment_of (\<lambda>_. reply_detached))))
      = Some Abort"
    by (rule Generator_detached)
       (simp add: ScanBatchesAsync_def fragment_of_def reply_detached_def)
  let ?s0 = "ScanBatchesAsync (fragment_of host_detaching)"
  let ?s1 = "?s0\<lparr>fragment := (fragment ?s0)\<lparr>itr_calls := Suc (itr_calls (fragment ?s0))\<rparr>,
                 cur_rb := Some batch0\<rparr>"
  have g0: "Generator ?s0 = Some (Return (Some batch0), ?s1)"
    by (rule Generator_batch [where r = reply_batch])
       (simp_all add: ScanBatchesAsync_def fragment_of_def host_detaching_def reply_batch_def)
  have g1: "map_option fst (Generator ?s1) = Some Abort"
    by (rule Generator_detached)
       (simp add: ScanBatchesAsync_def fragment_of_def host_detaching_def reply_detached_def)
  show ?thesis using i d g0 g1 by simp
qed

end
